theory Spec2Isabelle
  imports Complex_Main
begin

section \<open>Data model\<close>

text \<open>
  The analysis engine lives in the screen component \<^verbatim>\<open>LiveAiScreen\<close>. JavaScript numbers
  are modelled as mathematical reals where they hold coordinates, confidences and angles
  (finite values, no NaN), and as naturals where they hold counters that start at 0 and
  only ever grow by 1 (\<^verbatim>\<open>repCount\<close>, \<^verbatim>\<open>timer\<close>, \<^verbatim>\<open>lastAITrigger\<close>).
\<close>

record Landmark =
  lx :: real
  ly :: real
  lz :: real
  visibility :: real

datatype Exercise = Strength | Cardio | Yoga | HIIT | Running

datatype AiStatus = Loading | Ready | Failed

text \<open>The strings stored in \<^verbatim>\<open>exerciseStateRef.current.stage\<close>:
  'start', 'down', 'up', 'left_up', 'right_up'.\<close>

datatype Stage = Start | Down | Up | Left_up | Right_up

text \<open>The four angles \<^verbatim>\<open>getPoseDataString\<close> prints with \<^verbatim>\<open>toFixed(0)\<close>; the text around
  them is fixed.\<close>

type_synonym PoseData = "int list"

text \<open>The argument of \<^verbatim>\<open>getAICoaching\<close>.\<close>

record CoachingContext =
  c_exercise :: Exercise
  c_reps :: "nat option"
  c_timer :: "nat option"
  c_detectedIssue :: string
  c_poseData :: PoseData

text \<open>
  One record holds everything the component owns: the mutable ref
  (\<open>stage\<close>, \<open>lastAITrigger\<close>), the React state variables, the handle of the one-second
  interval created by the timer effect (\<open>interval\<close>: is an interval running), and two
  traces that make the calls observable: \<open>coachingCalls\<close> lists the arguments of every
  call of \<^verbatim>\<open>getAICoaching\<close>, \<open>inflight\<close> the calls of \<^verbatim>\<open>callMistralAPI\<close> whose promise has
  not settled yet.
\<close>

record Session =
  stage :: Stage
  lastAITrigger :: nat
  aiStatus :: AiStatus
  feedback :: string
  activeExercise :: Exercise
  aiCoachMessage :: string
  isLoadingAI :: bool
  repCount :: nat
  timer :: nat
  isPoseCorrect :: bool
  interval :: bool
  coachingCalls :: "CoachingContext list"
  inflight :: "CoachingContext list"

text \<open>
  A function of the component body reads the state variables through its closure: it sees
  the values of the render that created it, not the values written since. \<open>Render\<close> is
  that snapshot; \<open>renderOf st\<close> is the snapshot of a render of the current state.
\<close>

record Render =
  r_aiStatus :: AiStatus
  r_activeExercise :: Exercise
  r_isLoadingAI :: bool
  r_timer :: nat
  r_isPoseCorrect :: bool

definition renderOf :: "Session \<Rightarrow> Render" where
  "renderOf st = \<lparr> r_aiStatus = aiStatus st, r_activeExercise = activeExercise st,
     r_isLoadingAI = isLoadingAI st, r_timer = timer st,
     r_isPoseCorrect = isPoseCorrect st \<rparr>"

text \<open>The values of the \<^verbatim>\<open>useState\<close> and \<^verbatim>\<open>useRef\<close> initialisers.\<close>

definition initialSession :: Session where
  "initialSession = \<lparr> stage = Start, lastAITrigger = 0, aiStatus = Loading,
     feedback = ''Initializing AI...'', activeExercise = Strength, aiCoachMessage = [],
     isLoadingAI = False, repCount = 0, timer = 0, isPoseCorrect = False,
     interval = False, coachingCalls = [], inflight = [] \<rparr>"

definition firstRender :: Render where
  "firstRender = renderOf initialSession"

section \<open>Geometry\<close>

text \<open>\<^verbatim>\<open>Math.atan2(y, x)\<close> on the reals: the angle of the point \<open>(x, y)\<close> in \<open>(-\<pi>, \<pi>]\<close>,
  0 at the origin.\<close>

definition atan2 :: "real \<Rightarrow> real \<Rightarrow> real" where
  "atan2 v u =
     (if 0 < u then arctan (v / u)
      else if u < 0 then (if 0 \<le> v then arctan (v / u) + pi else arctan (v / u) - pi)
      else if 0 < v then pi / 2
      else if v < 0 then - (pi / 2)
      else 0)"

fun calculateAngle :: "Landmark option \<Rightarrow> Landmark option \<Rightarrow> Landmark option \<Rightarrow> real" where
  "calculateAngle (Some a) (Some b) (Some c) =
     (let radians = atan2 (ly c - ly b) (lx c - lx b) - atan2 (ly a - ly b) (lx a - lx b);
          angle = \<bar>(radians * 180) / pi\<bar>
      in if angle > 180 then 360 - angle else angle)"
| "calculateAngle _ _ _ = 0"

section \<open>Reading a frame\<close>

text \<open>\<^verbatim>\<open>l[i]\<close>: JavaScript gives \<^verbatim>\<open>undefined\<close> beyond the end of the array, and an entry
  may itself be absent.\<close>

definition landmarkAt :: "Landmark option list \<Rightarrow> nat \<Rightarrow> Landmark option" where
  "landmarkAt l i = (if i < length l then l ! i else None)"

text \<open>\<^verbatim>\<open>s.visibility < 0.7\<close>, which the gates read only after \<^verbatim>\<open>!s\<close> was false.\<close>

definition lowVisibility :: "Landmark option \<Rightarrow> bool" where
  "lowVisibility p = (case p of None \<Rightarrow> False | Some q \<Rightarrow> visibility q < 7 / 10)"

definition getPoseDataString :: "Landmark option list \<Rightarrow> PoseData" where
  "getPoseDataString l =
     [round (calculateAngle (landmarkAt l 11) (landmarkAt l 13) (landmarkAt l 15)),
      round (calculateAngle (landmarkAt l 12) (landmarkAt l 14) (landmarkAt l 16)),
      round (calculateAngle (landmarkAt l 23) (landmarkAt l 25) (landmarkAt l 27)),
      round (calculateAngle (landmarkAt l 24) (landmarkAt l 26) (landmarkAt l 28))]"

section \<open>Coaching requests\<close>

text \<open>
  What the \<^verbatim>\<open>fetch\<close> of \<^verbatim>\<open>callMistralAPI\<close> can come back with: the fetch rejects; the body
  is not JSON; the status is not ok; the body of an ok response has no \<^verbatim>\<open>choices\<close> array
  (reading its index 0 throws); or it has one, of which each entry carries a
  \<^verbatim>\<open>message.content\<close> or not.
\<close>

datatype FetchResult =
    NetworkFailure
  | InvalidJson
  | HttpError
  | MissingChoices
  | Choices "string option list"

datatype Promise = Rejected | Resolved string

text \<open>Every exception of the body is caught, so the promise always resolves.\<close>

fun callMistralAPI :: "FetchResult \<Rightarrow> Promise" where
  "callMistralAPI (Choices (Some content # _)) =
     Resolved (if content = [] then ''No response from AI.'' else content)"
| "callMistralAPI (Choices _) = Resolved ''No response from AI.''"
| "callMistralAPI _ = Resolved ''AI coach is temporarily unavailable.''"

text \<open>
  \<^verbatim>\<open>getAICoaching\<close> up to its \<^verbatim>\<open>await\<close>, run by a closure of the render \<open>r\<close>: the guard reads
  \<^verbatim>\<open>isLoadingAI\<close> of that render.
\<close>

definition getAICoaching :: "Render \<Rightarrow> CoachingContext \<Rightarrow> Session \<Rightarrow> Session" where
  "getAICoaching r ctx st =
     (let st1 = st\<lparr>coachingCalls := coachingCalls st @ [ctx]\<rparr>
      in if r_isLoadingAI r then st1
         else st1\<lparr>isLoadingAI := True, inflight := inflight st1 @ [ctx]\<rparr>)"

text \<open>\<^verbatim>\<open>getAICoaching\<close> after its \<^verbatim>\<open>await\<close>: the \<^verbatim>\<open>try\<close>, \<^verbatim>\<open>catch\<close> and \<^verbatim>\<open>finally\<close> branches.\<close>

definition getAICoaching_settled :: "CoachingContext \<Rightarrow> Promise \<Rightarrow> Session \<Rightarrow> Session" where
  "getAICoaching_settled ctx p st =
     (case p of
        Resolved aiResponse \<Rightarrow> st\<lparr>aiCoachMessage := aiResponse\<rparr>
      | Rejected \<Rightarrow> st\<lparr>aiCoachMessage := []\<rparr>)
     \<lparr>isLoadingAI := False, inflight := remove1 ctx (inflight st)\<rparr>"

text \<open>The fetch of the request \<open>ctx\<close> comes back with \<open>res\<close>.\<close>

definition coachingResponse :: "CoachingContext \<Rightarrow> FetchResult \<Rightarrow> Session \<Rightarrow> Session" where
  "coachingResponse ctx res st = getAICoaching_settled ctx (callMistralAPI res) st"

definition callFailed :: "FetchResult \<Rightarrow> bool" where
  "callFailed res = (res = NetworkFailure \<or> res = InvalidJson \<or> res = HttpError
     \<or> res = MissingChoices)"

section \<open>The exercise state machines\<close>

subsection \<open>Strength: bicep curls\<close>

definition bicepGate :: "Landmark option list \<Rightarrow> bool" where
  "bicepGate l =
     (let s = landmarkAt l 11; e = landmarkAt l 13; w = landmarkAt l 15
      in s = None \<or> e = None \<or> w = None \<or> lowVisibility s \<or> lowVisibility e)"

text \<open>The updater handed to \<^verbatim>\<open>setRepCount\<close>; React applies it to the latest count.\<close>

definition bicepRepUpdater :: "Render \<Rightarrow> PoseData \<Rightarrow> Session \<Rightarrow> Session" where
  "bicepRepUpdater r poseData st =
     (let newCount = repCount st + 1;
          st1 = (if newCount > 0 \<and> newCount mod 5 = 0 \<and> newCount \<noteq> lastAITrigger st
                 then getAICoaching r
                        \<lparr> c_exercise = Strength, c_reps = Some newCount, c_timer = None,
                          c_detectedIssue = ''User successfully completed a set of 5 reps.'',
                          c_poseData = poseData \<rparr>
                        (st\<lparr>lastAITrigger := newCount\<rparr>)
                 else st)
      in st1\<lparr>repCount := newCount\<rparr>)"

definition analyzeBicepCurls ::
  "Render \<Rightarrow> Landmark option list \<Rightarrow> PoseData \<Rightarrow> Session \<Rightarrow> Session" where
  "analyzeBicepCurls r l poseData st =
     (let s = landmarkAt l 11; e = landmarkAt l 13; w = landmarkAt l 15
      in if bicepGate l
         then st\<lparr>feedback := ''Ensure your left arm is fully visible to the camera.''\<rparr>
         else
           let angle = calculateAngle s e w; stg = stage st
           in if angle > 160
              then (if stg = Up then st\<lparr>feedback := ''Lowered fully. Great rep!''\<rparr> else st)
                   \<lparr>stage := Down\<rparr>
              else if angle < 40 \<and> stg = Down
              then bicepRepUpdater r poseData
                     (st\<lparr>stage := Up, feedback := ''Peak contraction! Lower slowly.''\<rparr>)
              else st)"

subsection \<open>Cardio: jumping jacks\<close>

definition jacksGate :: "Landmark option list \<Rightarrow> bool" where
  "jacksGate l =
     (landmarkAt l 11 = None \<or> landmarkAt l 12 = None \<or> landmarkAt l 23 = None
      \<or> landmarkAt l 24 = None \<or> landmarkAt l 27 = None \<or> landmarkAt l 28 = None
      \<or> landmarkAt l 15 = None \<or> landmarkAt l 16 = None \<or> lowVisibility (landmarkAt l 11))"

definition analyzeJumpingJacks ::
  "Landmark option list \<Rightarrow> PoseData \<Rightarrow> Session \<Rightarrow> Session" where
  "analyzeJumpingJacks l poseData st =
     (if jacksGate l
      then st\<lparr>feedback := ''Please face the camera and be fully visible.''\<rparr>
      else
        let ls = the (landmarkAt l 11); rs = the (landmarkAt l 12);
            lh = the (landmarkAt l 23); rh = the (landmarkAt l 24);
            la = the (landmarkAt l 27); ra = the (landmarkAt l 28);
            lw = the (landmarkAt l 15); rw = the (landmarkAt l 16);
            legsApart = (\<bar>lx la - lx ra\<bar> > \<bar>lx lh - lx rh\<bar> * (12 / 10));
            armsUp = (ly lw < ly ls \<and> ly rw < ly rs);
            stg = stage st
        in if \<not> legsApart \<and> \<not> armsUp
           then (if stg = Up then st\<lparr>feedback := ''Ready for the next jump!''\<rparr> else st)
                \<lparr>stage := Down\<rparr>
           else if legsApart \<and> armsUp \<and> stg = Down
           then st\<lparr>stage := Up, feedback := ''Excellent! Return to start.'',
                   repCount := repCount st + 1\<rparr>
           else if stg = Down \<and> (legsApart \<or> armsUp)
           then (if legsApart \<and> \<not> armsUp then st\<lparr>feedback := ''Bring your arms up!''\<rparr>
                 else if \<not> legsApart \<and> armsUp then st\<lparr>feedback := ''Jump your feet out!''\<rparr>
                 else st)
           else st)"

subsection \<open>Yoga: warrior pose\<close>

definition warriorGate :: "Landmark option list \<Rightarrow> bool" where
  "warriorGate l =
     (landmarkAt l 11 = None \<or> landmarkAt l 12 = None \<or> landmarkAt l 25 = None
      \<or> landmarkAt l 23 = None \<or> landmarkAt l 27 = None \<or> lowVisibility (landmarkAt l 11))"

text \<open>\<^verbatim>\<open>isPoseCorrect\<close> and \<^verbatim>\<open>timer\<close> are read from the render \<open>r\<close>: the calls of
  \<^verbatim>\<open>setIsPoseCorrect\<close> earlier in the same frame do not change what the closure sees.\<close>

definition analyzeWarriorPose ::
  "Render \<Rightarrow> Landmark option list \<Rightarrow> PoseData \<Rightarrow> Session \<Rightarrow> Session" where
  "analyzeWarriorPose r l poseData st =
     (let ls = landmarkAt l 11; rs = landmarkAt l 12; lw = landmarkAt l 15;
          lk = landmarkAt l 25; lh = landmarkAt l 23; la = landmarkAt l 27
      in if warriorGate l
         then st\<lparr>feedback := ''Ensure your full body is visible from the side.'',
                 isPoseCorrect := False\<rparr>
         else
           let armAngle = calculateAngle lw ls rs;
               kneeAngle = calculateAngle lh lk la;
               armsAreStraight = (armAngle > 160);
               kneeIsBent = (kneeAngle > 85 \<and> kneeAngle < 110);
               detectedIssue =
                 (if armsAreStraight \<and> kneeIsBent then ''User is holding the pose correctly.''
                  else if kneeAngle \<le> 85
                  then ''Front knee is bent too much. Ease up slightly.''
                  else if kneeAngle \<ge> 110
                  then ''Bend the front knee more to a 90-degree angle.''
                  else if \<not> armsAreStraight
                  then ''Arms are not fully extended. Reach out further!''
                  else []);
               st1 = (if armsAreStraight \<and> kneeIsBent
                      then (if \<not> r_isPoseCorrect r
                            then st\<lparr>feedback := ''Perfect form! Hold it strong.''\<rparr> else st)
                           \<lparr>isPoseCorrect := True\<rparr>
                      else st\<lparr>isPoseCorrect := False, feedback := detectedIssue\<rparr>);
               tenSecondMark = r_timer r div 10
           in if r_isPoseCorrect r \<and> r_timer r > 0 \<and> r_timer r mod 10 = 0
                 \<and> lastAITrigger st1 \<noteq> tenSecondMark
              then getAICoaching r
                     \<lparr> c_exercise = Yoga, c_reps = None, c_timer = Some (r_timer r),
                       c_detectedIssue = detectedIssue, c_poseData = poseData \<rparr>
                     (st1\<lparr>lastAITrigger := tenSecondMark\<rparr>)
              else st1)"

subsection \<open>HIIT: high knees\<close>

definition kneesGate :: "Landmark option list \<Rightarrow> bool" where
  "kneesGate l =
     (landmarkAt l 23 = None \<or> landmarkAt l 25 = None \<or> landmarkAt l 24 = None
      \<or> landmarkAt l 26 = None \<or> lowVisibility (landmarkAt l 23)
      \<or> lowVisibility (landmarkAt l 24))"

definition leftKneeUp :: "Landmark option list \<Rightarrow> bool" where
  "leftKneeUp l = (ly (the (landmarkAt l 25)) < ly (the (landmarkAt l 23)))"

definition rightKneeUp :: "Landmark option list \<Rightarrow> bool" where
  "rightKneeUp l = (ly (the (landmarkAt l 26)) < ly (the (landmarkAt l 24)))"

definition analyzeHighKnees ::
  "Landmark option list \<Rightarrow> PoseData \<Rightarrow> Session \<Rightarrow> Session" where
  "analyzeHighKnees l poseData st =
     (if kneesGate l
      then st\<lparr>feedback := ''Please face the camera, ensuring hips are visible.''\<rparr>
      else
        let stg = stage st
        in if leftKneeUp l \<and> stg \<noteq> Left_up
           then st\<lparr>stage := Left_up, feedback := ''Good! Switch.'',
                   repCount := repCount st + 1\<rparr>
           else if rightKneeUp l \<and> stg \<noteq> Right_up
           then st\<lparr>stage := Right_up, feedback := ''Nice! Switch.'',
                   repCount := repCount st + 1\<rparr>
           else if \<not> leftKneeUp l \<and> \<not> rightKneeUp l \<and> (stg = Left_up \<or> stg = Right_up)
           then st\<lparr>stage := Down, feedback := ''Drive those knees up!''\<rparr>
           else st)"

subsection \<open>Running form\<close>

definition runningGate :: "Landmark option list \<Rightarrow> bool" where
  "runningGate l =
     (landmarkAt l 11 = None \<or> landmarkAt l 23 = None \<or> landmarkAt l 25 = None
      \<or> lowVisibility (landmarkAt l 11) \<or> lowVisibility (landmarkAt l 23))"

definition analyzeRunningForm ::
  "Render \<Rightarrow> Landmark option list \<Rightarrow> PoseData \<Rightarrow> Session \<Rightarrow> Session" where
  "analyzeRunningForm r l poseData st =
     (let ls = landmarkAt l 11; lh = landmarkAt l 23; lk = landmarkAt l 25
      in if runningGate l
         then st\<lparr>feedback := ''Please face sideways to the camera for form analysis.'',
                 isPoseCorrect := False\<rparr>
         else
           let backAngle = calculateAngle ls lh lk;
               detectedIssue =
                 (if backAngle < 165
                  then ''Slight slouch detected. Try to keep your back straighter.''
                  else ''Excellent posture! Keep up the great pace.'');
               st1 = (if backAngle < 165
                      then (if r_isPoseCorrect r then st\<lparr>feedback := detectedIssue\<rparr> else st)
                           \<lparr>isPoseCorrect := False\<rparr>
                      else (if \<not> r_isPoseCorrect r then st\<lparr>feedback := detectedIssue\<rparr> else st)
                           \<lparr>isPoseCorrect := True\<rparr>);
               thirtySecondMark = r_timer r div 30
           in if r_timer r > 0 \<and> r_timer r mod 30 = 0
                 \<and> lastAITrigger st1 \<noteq> thirtySecondMark
              then getAICoaching r
                     \<lparr> c_exercise = Running, c_reps = None, c_timer = Some (r_timer r),
                       c_detectedIssue = detectedIssue, c_poseData = poseData \<rparr>
                     (st1\<lparr>lastAITrigger := thirtySecondMark\<rparr>)
              else st1)"

subsection \<open>Dispatch\<close>

definition analyzePose :: "Render \<Rightarrow> Landmark option list \<Rightarrow> Session \<Rightarrow> Session" where
  "analyzePose r l st =
     (let poseData = getPoseDataString l
      in case r_activeExercise r of
           Strength \<Rightarrow> analyzeBicepCurls r l poseData st
         | Cardio \<Rightarrow> analyzeJumpingJacks l poseData st
         | Yoga \<Rightarrow> analyzeWarriorPose r l poseData st
         | HIIT \<Rightarrow> analyzeHighKnees l poseData st
         | Running \<Rightarrow> analyzeRunningForm r l poseData st)"

text \<open>\<^verbatim>\<open>onResults\<close> without its drawing, when the canvas and the video element exist;
  \<open>None\<close> is a result without \<^verbatim>\<open>poseLandmarks\<close>.\<close>

definition onResults :: "Render \<Rightarrow> Landmark option list option \<Rightarrow> Session \<Rightarrow> Session" where
  "onResults r poseLandmarks st =
     (case poseLandmarks of
        Some l \<Rightarrow>
          if length l > 0 then analyzePose r l st
          else st\<lparr>feedback := ''No person detected. Position yourself in the camera's view.''\<rparr>
      | None \<Rightarrow>
          st\<lparr>feedback := ''No person detected. Position yourself in the camera's view.''\<rparr>)"

text \<open>
  The effect that sets MediaPipe up has the dependency list \<^verbatim>\<open>[]\<close>: it runs once, after
  the first render, and hands \<^verbatim>\<open>pose.onResults\<close> the \<^verbatim>\<open>onResults\<close> of that render. Every frame
  is therefore analysed by the closures of the first render (the source's comment on the
  effect calls this stale closure a known issue).
\<close>

definition registeredOnResults :: "Landmark option list option \<Rightarrow> Session \<Rightarrow> Session" where
  "registeredOnResults = onResults firstRender"

fun runFrames :: "(Landmark option list \<Rightarrow> Session \<Rightarrow> Session)
    \<Rightarrow> Landmark option list list \<Rightarrow> Session \<Rightarrow> Session" where
  "runFrames analyze [] st = st"
| "runFrames analyze (l # ls) st = runFrames analyze ls (analyze l st)"

section \<open>Session counters\<close>

definition resetExerciseState :: "Session \<Rightarrow> Session" where
  "resetExerciseState st =
     st\<lparr>repCount := 0, timer := 0, isPoseCorrect := False, aiCoachMessage := [],
        stage := Start, lastAITrigger := 0\<rparr>"

fun exerciseName :: "Exercise \<Rightarrow> string" where
  "exerciseName Strength = ''Strength''"
| "exerciseName Cardio = ''Cardio''"
| "exerciseName Yoga = ''Yoga''"
| "exerciseName HIIT = ''HIIT''"
| "exerciseName Running = ''Running''"

definition handleExerciseChange :: "Exercise \<Rightarrow> Session \<Rightarrow> Session" where
  "handleExerciseChange exercise st =
     (resetExerciseState (st\<lparr>activeExercise := exercise\<rparr>))
     \<lparr>feedback := ''Switched to '' @ exerciseName exercise @ ''. Get in position.''\<rparr>"

text \<open>
  The timer effect, with the dependencies \<^verbatim>\<open>[isPoseCorrect, activeExercise, aiStatus]\<close>.
  React runs its body after the first render and after every render in which a dependency
  changed, and runs the cleanup of the previous run just before.
\<close>

definition timerDeps :: "Session \<Rightarrow> bool \<times> Exercise \<times> AiStatus" where
  "timerDeps st = (isPoseCorrect st, activeExercise st, aiStatus st)"

definition timerCleanup :: "Session \<Rightarrow> Session" where
  "timerCleanup st = st\<lparr>interval := False\<rparr>"

definition timerEffect :: "Session \<Rightarrow> Session" where
  "timerEffect st =
     (if aiStatus st = Ready \<and> (activeExercise st = Yoga \<or> activeExercise st = Running)
         \<and> isPoseCorrect st
      then st\<lparr>interval := True\<rparr>
      else if \<not> isPoseCorrect st then st\<lparr>timer := 0\<rparr>
      else st)"

text \<open>The callback of the interval, once a second while the interval exists.\<close>

definition intervalTick :: "Session \<Rightarrow> Session" where
  "intervalTick st = (if interval st then st\<lparr>timer := timer st + 1\<rparr> else st)"

text \<open>The render that follows a state update from \<open>before\<close> to \<open>after\<close>.\<close>

definition rerender :: "Session \<Rightarrow> Session \<Rightarrow> Session" where
  "rerender before after =
     (if timerDeps after \<noteq> timerDeps before then timerEffect (timerCleanup after) else after)"

definition holdTimerRuns :: "Session \<Rightarrow> bool" where
  "holdTimerRuns st =
     (aiStatus st = Ready \<and> (activeExercise st = Yoga \<or> activeExercise st = Running)
      \<and> isPoseCorrect st)"

text \<open>The interval exists exactly when the effect's condition holds of the current state.\<close>

definition timerSynced :: "Session \<Rightarrow> bool" where
  "timerSynced st = (interval st = holdTimerRuns st)"

section \<open>Concrete inputs\<close>

text \<open>The left arm alone: shoulder at \<open>(1, 0)\<close>, elbow at the origin, wrist on the unit
  circle at \<open>d\<close> degrees, all three fully visible.\<close>

definition armFrame :: "real \<Rightarrow> Landmark option list" where
  "armFrame d = (replicate 33 None)
     [11 := Some \<lparr>lx = 1, ly = 0, lz = 0, visibility = 1\<rparr>,
      13 := Some \<lparr>lx = 0, ly = 0, lz = 0, visibility = 1\<rparr>,
      15 := Some \<lparr>lx = cos (d * pi / 180), ly = sin (d * pi / 180), lz = 0, visibility = 1\<rparr>]"


text \<open>All 33 landmarks at the origin with the same visibility.\<close>

definition uniformFrame :: "real \<Rightarrow> Landmark option list" where
  "uniformFrame v = replicate 33 (Some \<lparr>lx = 0, ly = 0, lz = 0, visibility = v\<rparr>)"

text \<open>Hips at height \<open>1/2\<close>, both knees above them (smaller \<open>y\<close>), all visible.\<close>

definition bothKneesFrame :: "Landmark option list" where
  "bothKneesFrame = (replicate 33 None)
     [23 := Some \<lparr>lx = 2 / 5, ly = 1 / 2, lz = 0, visibility = 1\<rparr>,
      24 := Some \<lparr>lx = 3 / 5, ly = 1 / 2, lz = 0, visibility = 1\<rparr>,
      25 := Some \<lparr>lx = 2 / 5, ly = 2 / 5, lz = 0, visibility = 1\<rparr>,
      26 := Some \<lparr>lx = 3 / 5, ly = 2 / 5, lz = 0, visibility = 1\<rparr>]"

definition elbowAngle :: "Landmark option list \<Rightarrow> real" where
  "elbowAngle l = calculateAngle (landmarkAt l 11) (landmarkAt l 13) (landmarkAt l 15)"

text \<open>A Yoga session three seconds into a correct hold.\<close>

definition yogaHold :: Session where
  "yogaHold = initialSession\<lparr>aiStatus := Ready, activeExercise := Yoga, timer := 3,
     isPoseCorrect := True, interval := True\<rparr>"

text \<open>A session thirty seconds into a correct hold.\<close>

definition holdAt30 :: Session where
  "holdAt30 = initialSession\<lparr>aiStatus := Ready, activeExercise := Running, timer := 30,
     isPoseCorrect := True, interval := True\<rparr>"

section \<open>Notions used to state the properties\<close>

text \<open>The mark of the Strength machine is the last multiple of 5 that the rep count has
  reached.\<close>

definition markSynced :: "Session \<Rightarrow> bool" where
  "markSynced st = (lastAITrigger st = 5 * (repCount st div 5))"

text \<open>The request the Strength machine makes at the rep count \<open>n\<close>.\<close>

definition strengthContext :: "nat \<Rightarrow> PoseData \<Rightarrow> CoachingContext" where
  "strengthContext n pd = \<lparr> c_exercise = Strength, c_reps = Some n, c_timer = None,
     c_detectedIssue = ''User successfully completed a set of 5 reps.'', c_poseData = pd \<rparr>"

text \<open>One frame of the Strength machine, as \<^verbatim>\<open>analyzePose\<close> calls it.\<close>

definition strengthFrame :: "Render \<Rightarrow> Landmark option list \<Rightarrow> Session \<Rightarrow> Session" where
  "strengthFrame r l st = analyzeBicepCurls r l (getPoseDataString l) st"


text \<open>A render never shows seconds on the timer next to an incorrect pose.\<close>

definition renderConsistent :: "Render \<Rightarrow> bool" where
  "renderConsistent r = (r_isPoseCorrect r \<or> r_timer r = 0)"

definition holdConsistent :: "Session \<Rightarrow> bool" where
  "holdConsistent st = (timerSynced st \<and> renderConsistent (renderOf st))"

text \<open>A Strength session whose request at rep 5 is awaiting its reply.\<close>

definition awaitingCoach :: Session where
  "awaitingCoach = initialSession\<lparr>aiStatus := Ready, stage := Up, repCount := 5,
     lastAITrigger := 5, isLoadingAI := True, coachingCalls := [strengthContext 5 [0, 0, 0, 0]],
     inflight := [strengthContext 5 [0, 0, 0, 0]]\<rparr>"

text \<open>Five curls: the arm extended to 170 degrees, then flexed to 35, five times.\<close>

definition fiveCurls :: "Landmark option list list" where
  "fiveCurls = [armFrame 170, armFrame 35, armFrame 170, armFrame 35, armFrame 170,
     armFrame 35, armFrame 170, armFrame 35, armFrame 170, armFrame 35]"

section \<open>Geometry: properties\<close>

lemma atan2_bounds: "- pi < atan2 v u \<and> atan2 v u \<le> pi"
proof -
  have b: "- (pi / 2) < arctan (v / u)" "arctan (v / u) < pi / 2"
    by (rule arctan_lbound, rule arctan_ubound)
  have neg: "u < 0 \<Longrightarrow> 0 \<le> v \<Longrightarrow> arctan (v / u) \<le> 0"
    by (metis arctan_zero_zero arctan_monotone' divide_nonneg_neg less_eq_real_def)
  have pos: "u < 0 \<Longrightarrow> v < 0 \<Longrightarrow> 0 < arctan (v / u)"
    by (metis arctan_zero_zero arctan_monotone divide_neg_neg)
  show ?thesis
    using b neg pos pi_gt_zero by (auto simp: atan2_def)
qed

lemma angle_fold_range:
  fixes r :: real
  assumes "- (2 * pi) < r" "r < 2 * pi"
  shows "0 \<le> (let angle = \<bar>(r * 180) / pi\<bar> in if angle > 180 then 360 - angle else angle)
       \<and> (let angle = \<bar>(r * 180) / pi\<bar> in if angle > 180 then 360 - angle else angle) \<le> 180"
proof -
  have "\<bar>r\<bar> < 2 * pi" using assms by simp
  then have "\<bar>r\<bar> * 180 < 360 * pi" by simp
  then have "\<bar>r\<bar> * 180 / pi < 360"
    using pi_gt_zero by (simp add: pos_divide_less_eq)
  moreover have "\<bar>(r * 180) / pi\<bar> = \<bar>r\<bar> * 180 / pi"
    using pi_gt_zero by (simp add: abs_mult)
  ultimately show ?thesis by (simp add: Let_def)
qed

text \<open>
  C9. \<^verbatim>\<open>calculateAngle\<close> gives the same value when its first and third argument are
  swapped, gives 0 as soon as one of its three arguments is absent, and its value always
  lies between 0 and 180.
\<close>

theorem calculateAngle_symmetric_absent_range:
  "calculateAngle a b c = calculateAngle c b a
   \<and> calculateAngle None b c = 0 \<and> calculateAngle a None c = 0 \<and> calculateAngle a b None = 0
   \<and> 0 \<le> calculateAngle a b c \<and> calculateAngle a b c \<le> 180"
proof -
  have sym: "calculateAngle a b c = calculateAngle c b a"
  proof (cases a; cases b; cases c)
    fix p q s assume "a = Some p" "b = Some q" "c = Some s"
    then show ?thesis
      by (simp add: Let_def abs_minus_commute flip: minus_divide_left minus_mult_left
            del: minus_diff_eq)
  qed simp_all
  have absent: "calculateAngle None b c = 0" "calculateAngle a None c = 0"
    "calculateAngle a b None = 0"
    by (cases a; cases b; cases c; simp)+
  have range: "0 \<le> calculateAngle a b c \<and> calculateAngle a b c \<le> 180"
  proof (cases a; cases b; cases c)
    fix p q s assume *: "a = Some p" "b = Some q" "c = Some s"
    let ?r = "atan2 (ly s - ly q) (lx s - lx q) - atan2 (ly p - ly q) (lx p - lx q)"
    have "- (2 * pi) < ?r" "?r < 2 * pi"
      using atan2_bounds [of "ly s - ly q" "lx s - lx q"]
        atan2_bounds [of "ly p - ly q" "lx p - lx q"] by linarith+
    note fold = angle_fold_range [OF this]
    have "calculateAngle a b c =
        (let angle = \<bar>(?r * 180) / pi\<bar> in if angle > 180 then 360 - angle else angle)"
      by (simp only: * calculateAngle.simps Let_def)
    with fold show ?thesis by (simp only:)
  qed simp_all
  from sym absent range show ?thesis by simp
qed

section \<open>Concrete inputs: properties\<close>

lemma atan2_polar:
  assumes "0 \<le> t" "t \<le> pi"
  shows "atan2 (sin t) (cos t) = t"
proof -
  consider "t < pi / 2" | "t = pi / 2" | "pi / 2 < t" by linarith
  then show ?thesis
  proof cases
    case 1
    then have c: "0 < cos t" using assms by (intro cos_gt_zero_pi) linarith+
    have "arctan (tan t) = t" using 1 assms by (intro arctan_tan) linarith+
    with c show ?thesis by (simp add: atan2_def tan_def)
  next
    case 2
    have "atan2 (sin (pi / 2)) (cos (pi / 2)) = pi / 2" by (simp add: atan2_def)
    then show ?thesis unfolding 2 .
  next
    case 3
    have "0 < cos (t - pi)" using 3 assms by (intro cos_gt_zero_pi) linarith+
    then have c: "cos t < 0" by simp
    have s: "0 \<le> sin t" using assms by (intro sin_ge_zero)
    have "tan (t - pi + pi) = tan (t - pi)" by (rule tan_periodic_pi)
    then have "tan t = tan (t - pi)" by simp
    moreover have "arctan (tan (t - pi)) = t - pi"
      using 3 assms by (intro arctan_tan) linarith+
    ultimately have "arctan (sin t / cos t) = t - pi" by (simp add: tan_def)
    with c s show ?thesis by (simp add: atan2_def)
  qed
qed

lemma landmarkAt_armFrame:
  "landmarkAt (armFrame d) 11 = Some \<lparr>lx = 1, ly = 0, lz = 0, visibility = 1\<rparr>"
  "landmarkAt (armFrame d) 13 = Some \<lparr>lx = 0, ly = 0, lz = 0, visibility = 1\<rparr>"
  "landmarkAt (armFrame d) 15
     = Some \<lparr>lx = cos (d * pi / 180), ly = sin (d * pi / 180), lz = 0, visibility = 1\<rparr>"
  by (simp_all add: landmarkAt_def armFrame_def)

lemma elbowAngle_armFrame:
  assumes "0 \<le> d" "d \<le> 180"
  shows "elbowAngle (armFrame d) = d"
proof -
  have t: "0 \<le> d * pi / 180" "d * pi / 180 \<le> pi"
    using assms pi_gt_zero by (simp_all add: field_simps)
  have z: "atan2 0 1 = 0" by (simp add: atan2_def)
  have "\<bar>d * pi / 180 * 180 / pi\<bar> = d" using assms by simp
  then show ?thesis
    using assms by (simp add: elbowAngle_def landmarkAt_armFrame atan2_polar [OF t] z Let_def)
qed

lemma bicepGate_armFrame: "\<not> bicepGate (armFrame d)"
  by (simp add: bicepGate_def landmarkAt_armFrame lowVisibility_def)

section \<open>Strength: steps of the machine\<close>

lemma getAICoaching_fields:
  "stage (getAICoaching r ctx st) = stage st"
  "repCount (getAICoaching r ctx st) = repCount st"
  "timer (getAICoaching r ctx st) = timer st"
  "isPoseCorrect (getAICoaching r ctx st) = isPoseCorrect st"
  "lastAITrigger (getAICoaching r ctx st) = lastAITrigger st"
  "feedback (getAICoaching r ctx st) = feedback st"
  "coachingCalls (getAICoaching r ctx st) = coachingCalls st @ [ctx]"
  by (simp_all add: getAICoaching_def Let_def)

lemma bicepRepUpdater_fields:
  "repCount (bicepRepUpdater r pd st) = repCount st + 1"
  "stage (bicepRepUpdater r pd st) = stage st"
  "timer (bicepRepUpdater r pd st) = timer st"
  "isPoseCorrect (bicepRepUpdater r pd st) = isPoseCorrect st"
  "feedback (bicepRepUpdater r pd st) = feedback st"
  by (simp_all add: bicepRepUpdater_def Let_def getAICoaching_fields)

lemma analyzeBicepCurls_visible:
  "\<not> bicepGate l \<Longrightarrow> analyzeBicepCurls r l pd st =
     (if elbowAngle l > 160
      then (if stage st = Up then st\<lparr>feedback := ''Lowered fully. Great rep!''\<rparr> else st)
           \<lparr>stage := Down\<rparr>
      else if elbowAngle l < 40 \<and> stage st = Down
      then bicepRepUpdater r pd
             (st\<lparr>stage := Up, feedback := ''Peak contraction! Lower slowly.''\<rparr>)
      else st)"
  by (simp add: analyzeBicepCurls_def elbowAngle_def Let_def)

lemma analyzeBicepCurls_gated:
  "bicepGate l \<Longrightarrow> analyzeBicepCurls r l pd st =
     st\<lparr>feedback := ''Ensure your left arm is fully visible to the camera.''\<rparr>"
  by (simp add: analyzeBicepCurls_def Let_def)

lemma bicep_step_repCount:
  "repCount (analyzeBicepCurls r l pd st) =
     (if \<not> bicepGate l \<and> elbowAngle l < 40 \<and> stage st = Down
      then repCount st + 1 else repCount st)"
  by (cases "bicepGate l")
     (auto simp: analyzeBicepCurls_gated analyzeBicepCurls_visible bicepRepUpdater_fields)

lemma bicep_step_stage:
  "stage (analyzeBicepCurls r l pd st) =
     (if bicepGate l then stage st
      else if elbowAngle l > 160 then Down
      else if elbowAngle l < 40 \<and> stage st = Down then Up
      else stage st)"
  by (cases "bicepGate l")
     (auto simp: analyzeBicepCurls_gated analyzeBicepCurls_visible bicepRepUpdater_fields)


lemma bicepRepUpdater_trigger:
  "bicepRepUpdater r pd st =
     (if (repCount st + 1) mod 5 = 0 \<and> repCount st + 1 \<noteq> lastAITrigger st
      then (getAICoaching r (strengthContext (repCount st + 1) pd)
              (st\<lparr>lastAITrigger := repCount st + 1\<rparr>))\<lparr>repCount := repCount st + 1\<rparr>
      else st\<lparr>repCount := repCount st + 1\<rparr>)"
  by (simp add: bicepRepUpdater_def strengthContext_def Let_def)

lemma bicepRepUpdater_calls:
  "coachingCalls (bicepRepUpdater r pd st) =
     (if (repCount st + 1) mod 5 = 0 \<and> repCount st + 1 \<noteq> lastAITrigger st
      then coachingCalls st @ [strengthContext (repCount st + 1) pd]
      else coachingCalls st)"
  "lastAITrigger (bicepRepUpdater r pd st) =
     (if (repCount st + 1) mod 5 = 0 \<and> repCount st + 1 \<noteq> lastAITrigger st
      then repCount st + 1 else lastAITrigger st)"
  by (simp_all add: bicepRepUpdater_trigger getAICoaching_fields)

lemma bicep_step_calls:
  "coachingCalls (analyzeBicepCurls r l pd st) =
     (if \<not> bicepGate l \<and> elbowAngle l < 40 \<and> stage st = Down
         \<and> (repCount st + 1) mod 5 = 0 \<and> repCount st + 1 \<noteq> lastAITrigger st
      then coachingCalls st @ [strengthContext (repCount st + 1) pd]
      else coachingCalls st)"
  "lastAITrigger (analyzeBicepCurls r l pd st) =
     (if \<not> bicepGate l \<and> elbowAngle l < 40 \<and> stage st = Down
         \<and> (repCount st + 1) mod 5 = 0 \<and> repCount st + 1 \<noteq> lastAITrigger st
      then repCount st + 1 else lastAITrigger st)"
  by (cases "bicepGate l";
      auto simp: analyzeBicepCurls_gated analyzeBicepCurls_visible bicepRepUpdater_calls
        bicepRepUpdater_fields)+

lemma markSynced_step:
  assumes "markSynced st"
  shows "markSynced (analyzeBicepCurls r l pd st)"
proof -
  have "(n + 1) mod 5 = 0 \<Longrightarrow> n + 1 = 5 * ((n + 1) div 5)" for n :: nat by presburger
  moreover have "(n + 1) mod 5 \<noteq> 0 \<Longrightarrow> (n + 1) div 5 = n div 5" for n :: nat by presburger
  moreover have "(n + 1) mod 5 = 0 \<Longrightarrow> n + 1 \<noteq> 5 * (n div 5)" for n :: nat by presburger
  ultimately show ?thesis
    using assms by (auto simp: markSynced_def bicep_step_calls bicep_step_repCount)
qed

lemma strength_step_trigger:
  assumes "markSynced st"
  shows "let st' = analyzeBicepCurls r l pd st in
      if repCount st' > 0 \<and> repCount st' mod 5 = 0 \<and> repCount st' \<noteq> lastAITrigger st
      then coachingCalls st' = coachingCalls st @ [strengthContext (repCount st') pd]
           \<and> lastAITrigger st' = repCount st'
      else coachingCalls st' = coachingCalls st \<and> lastAITrigger st' = lastAITrigger st"
proof -
  have "n mod 5 = 0 \<Longrightarrow> n = 5 * (n div 5)" for n :: nat by presburger
  then show ?thesis
    using assms
    by (auto simp: Let_def markSynced_def bicep_step_calls bicep_step_repCount)
qed

lemma upt_glue: "i \<le> j \<Longrightarrow> j \<le> k \<Longrightarrow> [i..<j] @ [j..<k] = [i..<k]"
  by (metis le_add_diff_inverse upt_add_eq_append)

lemma strength_step_marks:
  assumes "markSynced st"
  shows "map c_reps (coachingCalls (analyzeBicepCurls r l pd st)) =
     map c_reps (coachingCalls st)
       @ map (\<lambda>k. Some (5 * k))
           [Suc (repCount st div 5) ..< Suc (repCount (analyzeBicepCurls r l pd st) div 5)]"
proof (cases "\<not> bicepGate l \<and> elbowAngle l < 40 \<and> stage st = Down")
  case False
  then show ?thesis by (auto simp: bicep_step_calls bicep_step_repCount)
next
  case rep: True
  define n where "n = repCount st"
  have mark: "lastAITrigger st = 5 * (n div 5)"
    using assms by (simp add: markSynced_def n_def)
  show ?thesis
  proof (cases "(n + 1) mod 5 = 0")
    case True
    then have "(n + 1) div 5 = Suc (n div 5)" "5 * Suc (n div 5) = n + 1"
      "n + 1 \<noteq> 5 * (n div 5)" by presburger+
    then show ?thesis
      using rep True mark
      by (simp add: bicep_step_calls bicep_step_repCount strengthContext_def flip: n_def)
  next
    case False
    then have "(n + 1) div 5 = n div 5" by presburger
    then show ?thesis
      using rep False by (simp add: bicep_step_calls bicep_step_repCount flip: n_def)
  qed
qed

lemma strength_run_marks:
  assumes "markSynced st"
  shows "markSynced (runFrames (strengthFrame r) fs st)
     \<and> repCount st \<le> repCount (runFrames (strengthFrame r) fs st)
     \<and> map c_reps (coachingCalls (runFrames (strengthFrame r) fs st)) =
       map c_reps (coachingCalls st)
         @ map (\<lambda>k. Some (5 * k))
             [Suc (repCount st div 5) ..< Suc (repCount (runFrames (strengthFrame r) fs st) div 5)]"
  using assms
proof (induction fs arbitrary: st)
  case Nil
  then show ?case by simp
next
  case (Cons l fs)
  let ?s1 = "strengthFrame r l st"
  let ?s2 = "runFrames (strengthFrame r) fs ?s1"
  have s1: "markSynced ?s1" using Cons.prems by (simp add: strengthFrame_def markSynced_step)
  have le1: "repCount st \<le> repCount ?s1" by (simp add: strengthFrame_def bicep_step_repCount)
  note ih = Cons.IH [OF s1]
  have le2: "repCount ?s1 \<le> repCount ?s2" using ih by simp
  have m1: "map c_reps (coachingCalls ?s1) = map c_reps (coachingCalls st)
      @ map (\<lambda>k. Some (5 * k)) [Suc (repCount st div 5) ..< Suc (repCount ?s1 div 5)]"
    using strength_step_marks [OF Cons.prems] by (simp add: strengthFrame_def)
  have "[Suc (repCount st div 5) ..< Suc (repCount ?s1 div 5)]
      @ [Suc (repCount ?s1 div 5) ..< Suc (repCount ?s2 div 5)]
      = [Suc (repCount st div 5) ..< Suc (repCount ?s2 div 5)]"
    using le1 le2 by (intro upt_glue) (simp_all add: div_le_mono)
  then show ?case
    using ih m1 le1 le2 by (simp flip: map_append)
qed

lemma strengthFrame_step:
  "repCount (strengthFrame r l st) =
     (if \<not> bicepGate l \<and> elbowAngle l < 40 \<and> stage st = Down
      then repCount st + 1 else repCount st)"
  "stage (strengthFrame r l st) =
     (if bicepGate l then stage st
      else if elbowAngle l > 160 then Down
      else if elbowAngle l < 40 \<and> stage st = Down then Up
      else stage st)"
  by (simp_all add: strengthFrame_def bicep_step_repCount bicep_step_stage)

section \<open>Strength: counting repetitions\<close>

text \<open>
  C5. In the bicep-curl machine a rep is registered exactly on the step from stage Down to
  stage Up, which happens exactly on a frame that passes the visibility gate with an elbow
  angle below 40 while the stage is Down; a frame never adds more than one rep, and no frame
  adds a rep while the stage is Up. On four visible frames with the elbow angles 170, 150,
  35, 170, starting from stage Start with no reps, the rep count after the frames is
  0, 0, 1, 1: one rep, registered at the third frame.
\<close>

theorem bicep_rep_edge_triggered:
  "(let st' = analyzeBicepCurls r l pd st in
      (repCount st' = repCount st + 1
         \<longleftrightarrow> \<not> bicepGate l \<and> elbowAngle l < 40 \<and> stage st = Down)
      \<and> (repCount st' = repCount st + 1 \<longleftrightarrow> stage st = Down \<and> stage st' = Up)
      \<and> (repCount st' \<noteq> repCount st + 1 \<longrightarrow> repCount st' = repCount st)
      \<and> (stage st = Up \<longrightarrow> repCount st' = repCount st))
   \<and> (\<not> bicepGate l1 \<and> \<not> bicepGate l2 \<and> \<not> bicepGate l3 \<and> \<not> bicepGate l4
        \<and> elbowAngle l1 = 170 \<and> elbowAngle l2 = 150 \<and> elbowAngle l3 = 35
        \<and> elbowAngle l4 = 170 \<and> stage st0 = Start \<and> repCount st0 = 0
      \<longrightarrow> (let s1 = analyzeBicepCurls r l1 pd1 st0; s2 = analyzeBicepCurls r l2 pd2 s1;
               s3 = analyzeBicepCurls r l3 pd3 s2; s4 = analyzeBicepCurls r l4 pd4 s3
           in repCount s1 = 0 \<and> repCount s2 = 0 \<and> repCount s3 = 1 \<and> repCount s4 = 1
              \<and> stage s1 = Down \<and> stage s2 = Down \<and> stage s3 = Up \<and> stage s4 = Down))"
  by (simp add: Let_def bicep_step_repCount bicep_step_stage)

theorem bicep_rep_edge_triggered_witness:
  "repCount (analyzeBicepCurls firstRender (armFrame 35) [] (initialSession\<lparr>stage := Down\<rparr>)) = 1
   \<and> repCount (analyzeBicepCurls firstRender (armFrame 35) [] (initialSession\<lparr>stage := Up\<rparr>)) = 0
   \<and> repCount (runFrames (\<lambda>l. analyzeBicepCurls firstRender l [])
        [armFrame 170, armFrame 150, armFrame 35, armFrame 170] initialSession) = 1
   \<and> repCount (runFrames (\<lambda>l. analyzeBicepCurls firstRender l [])
        [armFrame 170, armFrame 150] initialSession) = 0"
  using bicep_rep_edge_triggered [of firstRender "armFrame 35" "[]" "initialSession\<lparr>stage := Down\<rparr>"
      "armFrame 170" "armFrame 150" "armFrame 35" "armFrame 170" initialSession "[]" "[]" "[]" "[]"]
    bicep_rep_edge_triggered [of firstRender "armFrame 35" "[]" "initialSession\<lparr>stage := Up\<rparr>"
      "armFrame 170" "armFrame 150" "armFrame 35" "armFrame 170" initialSession "[]" "[]" "[]" "[]"]
  by (simp add: Let_def bicepGate_armFrame elbowAngle_armFrame initialSession_def)

text \<open>
  C6, as the spec states it, fails: from a freshly reset session (stage Start) a visible
  frame with the elbow angle 35 leaves the stage at Start and the rep count at 0, whereas
  the same frame from stage Down gives stage Up and one rep.
\<close>

theorem bicep_start_counterexample:
  "\<not> bicepGate (armFrame 35) \<and> elbowAngle (armFrame 35) = 35
   \<and> stage (resetExerciseState initialSession) = Start
   \<and> stage (analyzeBicepCurls firstRender (armFrame 35) [35, 0, 0, 0]
        (resetExerciseState initialSession)) \<noteq> Up
   \<and> repCount (analyzeBicepCurls firstRender (armFrame 35) [35, 0, 0, 0]
        (resetExerciseState initialSession)) \<noteq> 1
   \<and> stage (analyzeBicepCurls firstRender (armFrame 35) [35, 0, 0, 0]
        ((resetExerciseState initialSession)\<lparr>stage := Down\<rparr>)) = Up
   \<and> repCount (analyzeBicepCurls firstRender (armFrame 35) [35, 0, 0, 0]
        ((resetExerciseState initialSession)\<lparr>stage := Down\<rparr>)) = 1"
  by (simp add: bicepGate_armFrame elbowAngle_armFrame bicep_step_repCount bicep_step_stage
        resetExerciseState_def initialSession_def)

text \<open>
  C6, amended. Start does not behave as Down: from stage Start a visible frame with an elbow
  angle below 40 changes nothing at all; a visible frame with an elbow angle above 160 moves
  Start to Down (and changes nothing else); and from Down a visible frame with an elbow
  angle below 40 moves the stage to Up and adds one rep. So the first rep of a session
  needs the arm to be extended first.
\<close>

theorem bicep_entry_needs_extension:
  "(\<not> bicepGate l \<and> elbowAngle l < 40 \<and> stage st = Start
      \<longrightarrow> analyzeBicepCurls r l pd st = st)
   \<and> (\<not> bicepGate l' \<and> elbowAngle l' > 160 \<and> stage st' = Start
      \<longrightarrow> analyzeBicepCurls r l' pd st' = st'\<lparr>stage := Down\<rparr>)
   \<and> (\<not> bicepGate l \<and> elbowAngle l < 40 \<and> stage st'' = Down
      \<longrightarrow> stage (analyzeBicepCurls r l pd st'') = Up
          \<and> repCount (analyzeBicepCurls r l pd st'') = repCount st'' + 1)"
  by (simp add: analyzeBicepCurls_visible bicepRepUpdater_fields)

theorem bicep_entry_needs_extension_witness:
  "analyzeBicepCurls firstRender (armFrame 35) [] initialSession = initialSession
   \<and> analyzeBicepCurls firstRender (armFrame 170) [] initialSession
       = initialSession\<lparr>stage := Down\<rparr>
   \<and> stage (analyzeBicepCurls firstRender (armFrame 35) []
        (analyzeBicepCurls firstRender (armFrame 170) [] initialSession)) = Up
   \<and> repCount (analyzeBicepCurls firstRender (armFrame 35) []
        (analyzeBicepCurls firstRender (armFrame 170) [] initialSession)) = 1"
proof -
  have s: "stage initialSession = Start" "repCount initialSession = 0"
    by (simp_all add: initialSession_def)
  from bicep_entry_needs_extension [of "armFrame 35" initialSession firstRender "[]"
      "armFrame 170" initialSession "initialSession\<lparr>stage := Down\<rparr>"]
  show ?thesis
    by (simp add: bicepGate_armFrame elbowAngle_armFrame s)
qed

section \<open>Strength: coaching every fifth rep\<close>

text \<open>
  C3. In the Strength machine the mark is in step with the rep count after a reset and
  after every frame, and on every frame a coaching request is made exactly when the rep
  count reached on that frame is positive, a multiple of 5 and different from the mark;
  the request then carries that count and the mark becomes that count, and otherwise the
  mark stays. Over any run of frames the counts of the requests made are the multiples of
  5 passed by the rep count, each once; in particular a run that takes the rep count from
  4 to 10 makes exactly two requests, at 5 and at 10.
\<close>

theorem strength_coaching_every_fifth_rep:
  "markSynced (resetExerciseState st0)
   \<and> (markSynced st \<longrightarrow>
        (let st' = analyzeBicepCurls r l pd st in
           markSynced st'
           \<and> (if repCount st' > 0 \<and> repCount st' mod 5 = 0 \<and> repCount st' \<noteq> lastAITrigger st
              then coachingCalls st' = coachingCalls st @ [strengthContext (repCount st') pd]
                   \<and> lastAITrigger st' = repCount st'
              else coachingCalls st' = coachingCalls st
                   \<and> lastAITrigger st' = lastAITrigger st)))
   \<and> (markSynced st1 \<longrightarrow>
        map c_reps (coachingCalls (runFrames (strengthFrame r) fs st1)) =
          map c_reps (coachingCalls st1)
            @ map (\<lambda>k. Some (5 * k))
                [Suc (repCount st1 div 5)
                   ..< Suc (repCount (runFrames (strengthFrame r) fs st1) div 5)])
   \<and> (markSynced st1 \<and> repCount st1 = 4 \<and> repCount (runFrames (strengthFrame r) fs st1) = 10
      \<longrightarrow> map c_reps (coachingCalls (runFrames (strengthFrame r) fs st1)) =
            map c_reps (coachingCalls st1) @ [Some 5, Some 10])"
proof -
  have a: "markSynced (resetExerciseState st0)"
    by (simp add: markSynced_def resetExerciseState_def)
  have b: "markSynced st \<longrightarrow>
        (let st' = analyzeBicepCurls r l pd st in
           markSynced st'
           \<and> (if repCount st' > 0 \<and> repCount st' mod 5 = 0 \<and> repCount st' \<noteq> lastAITrigger st
              then coachingCalls st' = coachingCalls st @ [strengthContext (repCount st') pd]
                   \<and> lastAITrigger st' = repCount st'
              else coachingCalls st' = coachingCalls st
                   \<and> lastAITrigger st' = lastAITrigger st))"
    using markSynced_step [of st r l pd] strength_step_trigger [of st r l pd]
    by (simp add: Let_def)
  have c: "markSynced st1 \<longrightarrow>
        map c_reps (coachingCalls (runFrames (strengthFrame r) fs st1)) =
          map c_reps (coachingCalls st1)
            @ map (\<lambda>k. Some (5 * k))
                [Suc (repCount st1 div 5)
                   ..< Suc (repCount (runFrames (strengthFrame r) fs st1) div 5)]"
    using strength_run_marks [of st1 r fs] by simp
  have u: "map (\<lambda>k. Some (5 * k)) [Suc (4 div 5) ..< Suc (10 div 5)] = [Some 5, Some (10::nat)]"
    by (simp add: upt_rec)
  have d: "markSynced st1 \<and> repCount st1 = 4 \<and> repCount (runFrames (strengthFrame r) fs st1) = 10
      \<longrightarrow> map c_reps (coachingCalls (runFrames (strengthFrame r) fs st1)) =
            map c_reps (coachingCalls st1) @ [Some 5, Some 10]"
  proof (intro impI, elim conjE)
    assume h: "markSynced st1" "repCount st1 = 4"
      "repCount (runFrames (strengthFrame r) fs st1) = 10"
    from c h(1) have "map c_reps (coachingCalls (runFrames (strengthFrame r) fs st1)) =
          map c_reps (coachingCalls st1)
            @ map (\<lambda>k. Some (5 * k))
                [Suc (repCount st1 div 5)
                   ..< Suc (repCount (runFrames (strengthFrame r) fs st1) div 5)]"
      by (rule mp)
    then show "map c_reps (coachingCalls (runFrames (strengthFrame r) fs st1)) =
            map c_reps (coachingCalls st1) @ [Some 5, Some 10]"
      unfolding h(2,3) u .
  qed
  from a b c d show ?thesis by blast
qed

theorem strength_coaching_every_fifth_rep_witness:
  "map c_reps (coachingCalls (analyzeBicepCurls firstRender (armFrame 35) []
      (initialSession\<lparr>stage := Down, repCount := 4\<rparr>))) = [Some 5]
   \<and> map c_reps (coachingCalls (runFrames (strengthFrame firstRender)
        [armFrame 170, armFrame 35, armFrame 170, armFrame 35, armFrame 170, armFrame 35,
         armFrame 170, armFrame 35, armFrame 170, armFrame 35, armFrame 170, armFrame 35]
        (initialSession\<lparr>repCount := 4\<rparr>))) = [Some 5, Some 10]"
proof -
  let ?st = "initialSession\<lparr>stage := Down, repCount := 4\<rparr>"
  let ?st1 = "initialSession\<lparr>repCount := 4\<rparr>"
  let ?fs = "[armFrame 170, armFrame 35, armFrame 170, armFrame 35, armFrame 170, armFrame 35,
         armFrame 170, armFrame 35, armFrame 170, armFrame 35, armFrame 170, armFrame 35]"
  have m: "markSynced ?st" "markSynced ?st1"
    by (simp_all add: markSynced_def initialSession_def)
  have e: "coachingCalls ?st = []" "lastAITrigger ?st = 0" "coachingCalls ?st1 = []"
    "repCount ?st1 = 4"
    by (simp_all add: initialSession_def)
  have r5: "repCount (analyzeBicepCurls firstRender (armFrame 35) [] ?st) = 5"
    by (simp add: bicep_step_repCount bicepGate_armFrame elbowAngle_armFrame)
  have r10: "repCount (runFrames (strengthFrame firstRender) ?fs ?st1) = 10"
    by (simp add: strengthFrame_step bicepGate_armFrame elbowAngle_armFrame initialSession_def)
  note inst = strength_coaching_every_fifth_rep [of initialSession ?st firstRender "armFrame 35" "[]"
      ?st1 ?fs]
  from inst m(1) e(1,2) r5
  have A: "coachingCalls (analyzeBicepCurls firstRender (armFrame 35) [] ?st)
      = [strengthContext 5 []]"
    by (simp add: Let_def)
  from inst [THEN conjunct2, THEN conjunct2, THEN conjunct2] m(2) e(4) r10
  have "map c_reps (coachingCalls (runFrames (strengthFrame firstRender) ?fs ?st1))
      = map c_reps (coachingCalls ?st1) @ [Some 5, Some 10]"
    by blast
  then have B: "map c_reps (coachingCalls (runFrames (strengthFrame firstRender) ?fs ?st1))
      = [Some 5, Some 10]"
    unfolding e(3) by simp
  show ?thesis
    unfolding A B by (simp add: strengthContext_def)
qed

section \<open>The visibility gates\<close>

lemma landmarkAt_uniformFrame:
  "i < 33 \<Longrightarrow> landmarkAt (uniformFrame v) i = Some \<lparr>lx = 0, ly = 0, lz = 0, visibility = v\<rparr>"
  by (simp add: landmarkAt_def uniformFrame_def)

lemma gates_uniformFrame:
  "bicepGate (uniformFrame v) = (v < 7 / 10)"
  "jacksGate (uniformFrame v) = (v < 7 / 10)"
  "warriorGate (uniformFrame v) = (v < 7 / 10)"
  "kneesGate (uniformFrame v) = (v < 7 / 10)"
  "runningGate (uniformFrame v) = (v < 7 / 10)"
  by (simp_all add: bicepGate_def jacksGate_def warriorGate_def kneesGate_def runningGate_def
        landmarkAt_uniformFrame lowVisibility_def)

lemma calculateAngle_coincident:
  "calculateAngle (Some \<lparr>lx = 0, ly = 0, lz = 0, visibility = v\<rparr>)
     (Some \<lparr>lx = 0, ly = 0, lz = 0, visibility = v\<rparr>)
     (Some \<lparr>lx = 0, ly = 0, lz = 0, visibility = v\<rparr>) = 0"
  by (simp add: atan2_def)





section \<open>HIIT: both knees up\<close>

lemma landmarkAt_bothKneesFrame:
  "landmarkAt bothKneesFrame 23 = Some \<lparr>lx = 2 / 5, ly = 1 / 2, lz = 0, visibility = 1\<rparr>"
  "landmarkAt bothKneesFrame 24 = Some \<lparr>lx = 3 / 5, ly = 1 / 2, lz = 0, visibility = 1\<rparr>"
  "landmarkAt bothKneesFrame 25 = Some \<lparr>lx = 2 / 5, ly = 2 / 5, lz = 0, visibility = 1\<rparr>"
  "landmarkAt bothKneesFrame 26 = Some \<lparr>lx = 3 / 5, ly = 2 / 5, lz = 0, visibility = 1\<rparr>"
  by (simp_all add: landmarkAt_def bothKneesFrame_def)

lemma bothKneesFrame_up:
  "\<not> kneesGate bothKneesFrame" "leftKneeUp bothKneesFrame" "rightKneeUp bothKneesFrame"
  by (simp_all add: kneesGate_def leftKneeUp_def rightKneeUp_def landmarkAt_bothKneesFrame
        lowVisibility_def)

lemma analyzeHighKnees_both_up:
  assumes "\<not> kneesGate l" "leftKneeUp l" "rightKneeUp l"
  shows "analyzeHighKnees l pd st =
     (if stage st \<noteq> Left_up
      then st\<lparr>stage := Left_up, feedback := ''Good! Switch.'', repCount := repCount st + 1\<rparr>
      else st\<lparr>stage := Right_up, feedback := ''Nice! Switch.'', repCount := repCount st + 1\<rparr>)"
  using assms by (simp add: analyzeHighKnees_def Let_def)

lemma highKnees_run_both_up:
  assumes "\<forall>l \<in> set fs. \<not> kneesGate l \<and> leftKneeUp l \<and> rightKneeUp l"
  shows "repCount (runFrames (\<lambda>l. analyzeHighKnees l (getPoseDataString l)) fs st)
     = repCount st + length fs"
  using assms
proof (induction fs arbitrary: st)
  case Nil
  then show ?case by simp
next
  case (Cons l fs)
  then have l: "\<not> kneesGate l" "leftKneeUp l" "rightKneeUp l" by simp_all
  have "repCount (analyzeHighKnees l (getPoseDataString l) st) = repCount st + 1"
    by (simp add: analyzeHighKnees_both_up [OF l])
  with Cons show ?case by simp
qed

text \<open>
  C10. In the high-knees machine, on a visible frame with both knees above their hips the
  left-knee branch wins whenever the stage is not already \<open>Left_up\<close> (stage \<open>Left_up\<close>,
  one rep); when the stage is \<open>Left_up\<close> the right-knee branch runs (stage \<open>Right_up\<close>,
  one rep). So every such frame adds a rep: a run of N such frames adds N.
\<close>

theorem high_knees_both_up_counts_every_frame:
  "(\<not> kneesGate l \<and> leftKneeUp l \<and> rightKneeUp l \<longrightarrow>
      (stage st \<noteq> Left_up \<longrightarrow> analyzeHighKnees l pd st =
         st\<lparr>stage := Left_up, feedback := ''Good! Switch.'', repCount := repCount st + 1\<rparr>)
      \<and> (stage st = Left_up \<longrightarrow> analyzeHighKnees l pd st =
         st\<lparr>stage := Right_up, feedback := ''Nice! Switch.'', repCount := repCount st + 1\<rparr>))
   \<and> ((\<forall>l \<in> set fs. \<not> kneesGate l \<and> leftKneeUp l \<and> rightKneeUp l) \<longrightarrow>
        repCount (runFrames (\<lambda>l. analyzeHighKnees l (getPoseDataString l)) fs st0)
          = repCount st0 + length fs)"
  using highKnees_run_both_up [of fs st0]
  by (simp add: analyzeHighKnees_both_up)

theorem high_knees_both_up_counts_every_frame_witness:
  "stage (analyzeHighKnees bothKneesFrame [] initialSession) = Left_up
   \<and> stage (analyzeHighKnees bothKneesFrame []
        (analyzeHighKnees bothKneesFrame [] initialSession)) = Right_up
   \<and> repCount (runFrames (\<lambda>l. analyzeHighKnees l (getPoseDataString l))
        [bothKneesFrame, bothKneesFrame, bothKneesFrame, bothKneesFrame] initialSession) = 4"
proof -
  have s: "stage initialSession = Start" "repCount initialSession = 0"
    by (simp_all add: initialSession_def)
  let ?s1 = "analyzeHighKnees bothKneesFrame [] initialSession"
  from high_knees_both_up_counts_every_frame [of bothKneesFrame initialSession "[]"
      "[bothKneesFrame, bothKneesFrame, bothKneesFrame, bothKneesFrame]" initialSession]
  have a: "?s1 = initialSession\<lparr>stage := Left_up, feedback := ''Good! Switch.'',
        repCount := repCount initialSession + 1\<rparr>"
    and c: "repCount (runFrames (\<lambda>l. analyzeHighKnees l (getPoseDataString l))
        [bothKneesFrame, bothKneesFrame, bothKneesFrame, bothKneesFrame] initialSession) = 4"
    by (simp_all add: bothKneesFrame_up s)
  from high_knees_both_up_counts_every_frame [of bothKneesFrame ?s1 "[]" "[]" initialSession]
  have b: "stage (analyzeHighKnees bothKneesFrame [] ?s1) = Right_up"
    by (simp add: bothKneesFrame_up a)
  from a b c show ?thesis by simp
qed

section \<open>The hold timer\<close>

lemma timerSynced_rerender:
  assumes "timerSynced before" "interval after = interval before"
  shows "timerSynced (rerender before after)"
  using assms
  by (auto simp: timerSynced_def holdTimerRuns_def rerender_def timerDeps_def timerEffect_def
        timerCleanup_def)

lemma timerSynced_mount: "\<not> interval st \<Longrightarrow> timerSynced (timerEffect st)"
  by (auto simp: timerSynced_def holdTimerRuns_def timerEffect_def)

lemma interval_handlers:
  "interval (onResults r res st) = interval st"
  "interval (intervalTick st) = interval st"
  "interval (handleExerciseChange ex st) = interval st"
  "interval (coachingResponse ctx fr st) = interval st"
proof -
  have g: "interval (getAICoaching r c s) = interval s" for c s
    by (simp add: getAICoaching_def Let_def)
  have "interval (analyzePose r l st) = interval st" for l
    by (cases "r_activeExercise r")
       (simp_all add: analyzePose_def analyzeBicepCurls_def bicepRepUpdater_def
          analyzeJumpingJacks_def analyzeWarriorPose_def analyzeHighKnees_def
          analyzeRunningForm_def Let_def g)
  then show "interval (onResults r res st) = interval st"
    by (simp add: onResults_def split: option.splits)
  show "interval (intervalTick st) = interval st"
    by (simp add: intervalTick_def)
  show "interval (handleExerciseChange ex st) = interval st"
    by (simp add: handleExerciseChange_def resetExerciseState_def)
  show "interval (coachingResponse ctx fr st) = interval st"
    by (simp add: coachingResponse_def getAICoaching_settled_def split: Promise.splits)
qed

text \<open>
  C7. The interval of the timer effect exists exactly when the exercise is Yoga or Running,
  the engine is ready and \<open>isPoseCorrect\<close> is true: this holds after the first render and
  after the render that follows any state update (no handler touches the interval itself).
  Hence a one-second tick adds exactly one to the timer if and only if those three
  conditions hold, and changes nothing otherwise. The render in which \<open>isPoseCorrect\<close> has
  become false sets the timer to 0 and leaves no interval; when \<open>isPoseCorrect\<close> becomes
  true again the timer is still 0 and the next tick makes it 1.
\<close>

theorem hold_timer_ticks_and_resets:
  "(\<not> interval st0 \<longrightarrow> timerSynced (timerEffect st0))
   \<and> (timerSynced before \<and> interval after = interval before
        \<longrightarrow> timerSynced (rerender before after))
   \<and> (timerSynced st \<longrightarrow>
        (timer (intervalTick st) = timer st + 1 \<longleftrightarrow>
           (activeExercise st = Yoga \<or> activeExercise st = Running) \<and> aiStatus st = Ready
           \<and> isPoseCorrect st)
        \<and> (timer (intervalTick st) \<noteq> timer st + 1 \<longrightarrow> intervalTick st = st))
   \<and> (isPoseCorrect before \<and> \<not> isPoseCorrect after
        \<longrightarrow> timer (rerender before after) = 0 \<and> \<not> interval (rerender before after))
   \<and> (\<not> isPoseCorrect before \<and> isPoseCorrect after \<and> timer after = 0
        \<and> (activeExercise after = Yoga \<or> activeExercise after = Running)
        \<and> aiStatus after = Ready
        \<longrightarrow> timer (rerender before after) = 0
            \<and> timer (intervalTick (rerender before after)) = 1)
   \<and> interval (onResults r res st) = interval st
   \<and> interval (intervalTick st) = interval st
   \<and> interval (handleExerciseChange ex st) = interval st
   \<and> interval (coachingResponse ctx fr st) = interval st"
proof -
  have handlers: "interval (onResults r res st) = interval st
      \<and> interval (intervalTick st) = interval st
      \<and> interval (handleExerciseChange ex st) = interval st
      \<and> interval (coachingResponse ctx fr st) = interval st"
    by (simp add: interval_handlers)
  have tick: "timerSynced st \<longrightarrow>
        (timer (intervalTick st) = timer st + 1 \<longleftrightarrow>
           (activeExercise st = Yoga \<or> activeExercise st = Running) \<and> aiStatus st = Ready
           \<and> isPoseCorrect st)
        \<and> (timer (intervalTick st) \<noteq> timer st + 1 \<longrightarrow> intervalTick st = st)"
    by (auto simp: timerSynced_def holdTimerRuns_def intervalTick_def)
  have lost: "isPoseCorrect before \<and> \<not> isPoseCorrect after
        \<longrightarrow> timer (rerender before after) = 0 \<and> \<not> interval (rerender before after)"
    by (auto simp: rerender_def timerDeps_def timerEffect_def timerCleanup_def)
  have regained: "\<not> isPoseCorrect before \<and> isPoseCorrect after \<and> timer after = 0
        \<and> (activeExercise after = Yoga \<or> activeExercise after = Running)
        \<and> aiStatus after = Ready
        \<longrightarrow> timer (rerender before after) = 0
            \<and> timer (intervalTick (rerender before after)) = 1"
    by (auto simp: rerender_def timerDeps_def timerEffect_def timerCleanup_def intervalTick_def)
  from tick lost regained handlers timerSynced_mount [of st0]
    timerSynced_rerender [of before after]
  show ?thesis by blast
qed

theorem hold_timer_ticks_and_resets_witness:
  "timerSynced (timerEffect initialSession)
   \<and> timer (intervalTick yogaHold) = 4
   \<and> timer (intervalTick (yogaHold\<lparr>activeExercise := Strength, interval := False\<rparr>)) = 3
   \<and> timer (rerender yogaHold (yogaHold\<lparr>isPoseCorrect := False\<rparr>)) = 0
   \<and> timerSynced (rerender yogaHold (yogaHold\<lparr>isPoseCorrect := False\<rparr>))
   \<and> timer (intervalTick (rerender
        (rerender yogaHold (yogaHold\<lparr>isPoseCorrect := False\<rparr>))
        ((rerender yogaHold (yogaHold\<lparr>isPoseCorrect := False\<rparr>))\<lparr>isPoseCorrect := True\<rparr>))) = 1"
proof -
  let ?lost = "yogaHold\<lparr>isPoseCorrect := False\<rparr>"
  let ?r = "rerender yogaHold ?lost"
  let ?idle = "yogaHold\<lparr>activeExercise := Strength, interval := False\<rparr>"
  have y: "timerSynced yogaHold" "timer yogaHold = 3" "isPoseCorrect yogaHold"
    "activeExercise yogaHold = Yoga" "aiStatus yogaHold = Ready" "interval yogaHold"
    by (simp_all add: yogaHold_def initialSession_def timerSynced_def holdTimerRuns_def)
  have i: "timerSynced ?idle" "timer ?idle = 3" "activeExercise ?idle = Strength"
    by (simp_all add: yogaHold_def initialSession_def timerSynced_def holdTimerRuns_def)
  have l: "\<not> isPoseCorrect ?lost" "interval ?lost = interval yogaHold" by simp_all
  have m: "\<not> interval initialSession" by (simp add: initialSession_def)
  note a = hold_timer_ticks_and_resets [of initialSession yogaHold ?lost yogaHold]
  note b = hold_timer_ticks_and_resets [of initialSession yogaHold ?lost ?idle]
  from a [THEN conjunct1] m have 1: "timerSynced (timerEffect initialSession)" by (rule mp)
  from a [THEN conjunct2, THEN conjunct2, THEN conjunct1] y
  have 2: "timer (intervalTick yogaHold) = 4" by simp
  from b [THEN conjunct2, THEN conjunct2, THEN conjunct1] i
  have 3: "timer (intervalTick ?idle) = 3" by auto
  from a [THEN conjunct2, THEN conjunct2, THEN conjunct2, THEN conjunct1] y(3) l(1)
  have 4: "timer ?r = 0" by blast
  from a [THEN conjunct2, THEN conjunct1] y(1) l(2)
  have 5: "timerSynced ?r" by blast
  have r: "\<not> isPoseCorrect ?r" "activeExercise ?r = Yoga" "aiStatus ?r = Ready"
    by (simp_all add: rerender_def timerDeps_def timerEffect_def timerCleanup_def
          yogaHold_def initialSession_def)
  from hold_timer_ticks_and_resets [of initialSession ?r "?r\<lparr>isPoseCorrect := True\<rparr>" yogaHold,
      THEN conjunct2, THEN conjunct2, THEN conjunct2, THEN conjunct2, THEN conjunct1] r 4
  have 6: "timer (intervalTick (rerender ?r (?r\<lparr>isPoseCorrect := True\<rparr>))) = 1" by simp
  from 1 2 3 4 5 6 show ?thesis by simp
qed

section \<open>The coaching call\<close>

lemma callMistralAPI_resolves: "callMistralAPI res \<noteq> Rejected"
  by (cases res rule: callMistralAPI.cases) simp_all

lemma callMistralAPI_failed:
  "callFailed res \<Longrightarrow> callMistralAPI res = Resolved ''AI coach is temporarily unavailable.''"
  by (auto simp: callFailed_def)

text \<open>
  C8, as the spec states it, fails: when the fetch rejects, the coaching message surfaced is
  the text \<^verbatim>\<open>AI coach is temporarily unavailable.\<close>, not an empty message.
\<close>

theorem failed_call_message_counterexample:
  "callFailed NetworkFailure
   \<and> aiCoachMessage (coachingResponse (strengthContext 5 [0, 0, 0, 0]) NetworkFailure awaitingCoach)
       = ''AI coach is temporarily unavailable.''
   \<and> aiCoachMessage (coachingResponse (strengthContext 5 [0, 0, 0, 0]) NetworkFailure awaitingCoach)
       \<noteq> []"
  by (simp add: callFailed_def coachingResponse_def getAICoaching_settled_def)

text \<open>
  C8, amended. \<^verbatim>\<open>callMistralAPI\<close> never rejects. When the external call fails (the fetch
  rejects, the body is not JSON, the status is not ok, or the body has no choices), it
  resolves to the fixed text \<^verbatim>\<open>AI coach is temporarily unavailable.\<close>, which becomes the
  coaching message; the in-flight flag is cleared, no request is made again, and rep count,
  timer, \<open>isPoseCorrect\<close> and stage are untouched. The empty message is what
  \<^verbatim>\<open>getAICoaching\<close> would surface if the promise it awaits rejected.
\<close>

theorem failed_call_surfaces_fallback:
  "callMistralAPI res \<noteq> Rejected
   \<and> (callFailed res' \<longrightarrow>
        coachingResponse ctx res' st =
          st\<lparr>aiCoachMessage := ''AI coach is temporarily unavailable.'', isLoadingAI := False,
             inflight := remove1 ctx (inflight st)\<rparr>
        \<and> repCount (coachingResponse ctx res' st) = repCount st
        \<and> timer (coachingResponse ctx res' st) = timer st
        \<and> isPoseCorrect (coachingResponse ctx res' st) = isPoseCorrect st
        \<and> stage (coachingResponse ctx res' st) = stage st
        \<and> coachingCalls (coachingResponse ctx res' st) = coachingCalls st
        \<and> length (inflight (coachingResponse ctx res' st)) \<le> length (inflight st))
   \<and> getAICoaching_settled ctx Rejected st =
        st\<lparr>aiCoachMessage := [], isLoadingAI := False, inflight := remove1 ctx (inflight st)\<rparr>"
proof -
  have "length (remove1 ctx (inflight st)) \<le> length (inflight st)"
    by (simp add: length_remove1)
  then show ?thesis
    by (simp add: callMistralAPI_resolves callMistralAPI_failed coachingResponse_def
          getAICoaching_settled_def)
qed

theorem failed_call_surfaces_fallback_witness:
  "coachingResponse (strengthContext 5 [0, 0, 0, 0]) HttpError awaitingCoach =
     awaitingCoach\<lparr>aiCoachMessage := ''AI coach is temporarily unavailable.'',
       isLoadingAI := False, inflight := []\<rparr>
   \<and> repCount (coachingResponse (strengthContext 5 [0, 0, 0, 0]) HttpError awaitingCoach) = 5"
proof -
  have f: "callFailed HttpError" by (simp add: callFailed_def)
  have i: "inflight awaitingCoach = [strengthContext 5 [0, 0, 0, 0]]" "repCount awaitingCoach = 5"
    by (simp_all add: awaitingCoach_def)
  from failed_call_surfaces_fallback [of NetworkFailure HttpError "strengthContext 5 [0, 0, 0, 0]"
      awaitingCoach] f
  show ?thesis by (simp add: i)
qed

section \<open>One request at a time\<close>

lemma bicep_step_inflight:
  "inflight (analyzeBicepCurls r l pd st) =
     (if \<not> bicepGate l \<and> elbowAngle l < 40 \<and> stage st = Down
         \<and> (repCount st + 1) mod 5 = 0 \<and> repCount st + 1 \<noteq> lastAITrigger st
         \<and> \<not> r_isLoadingAI r
      then inflight st @ [strengthContext (repCount st + 1) pd]
      else inflight st)"
  "isLoadingAI (analyzeBicepCurls r l pd st) =
     (if \<not> bicepGate l \<and> elbowAngle l < 40 \<and> stage st = Down
         \<and> (repCount st + 1) mod 5 = 0 \<and> repCount st + 1 \<noteq> lastAITrigger st
         \<and> \<not> r_isLoadingAI r
      then True else isLoadingAI st)"
  by (cases "bicepGate l";
      auto simp: analyzeBicepCurls_gated analyzeBicepCurls_visible bicepRepUpdater_trigger
        getAICoaching_def Let_def)+

lemma registeredOnResults_frame:
  "l \<noteq> [] \<Longrightarrow> registeredOnResults (Some l) st = strengthFrame firstRender l st"
  by (simp add: registeredOnResults_def onResults_def analyzePose_def strengthFrame_def
        firstRender_def renderOf_def initialSession_def)

lemma getPoseDataString_armFrame:
  "0 \<le> d \<Longrightarrow> d \<le> 180 \<Longrightarrow> getPoseDataString (armFrame d) = [round d, 0, 0, 0]"
  using elbowAngle_armFrame [of d]
  by (simp add: getPoseDataString_def elbowAngle_def) (simp add: landmarkAt_def armFrame_def)

lemma runFrames_append:
  "runFrames f (xs @ ys) st = runFrames f ys (runFrames f xs st)"
  by (induction xs arbitrary: st) simp_all

lemma armFrame_nonempty: "armFrame d \<noteq> []"
  by (simp add: armFrame_def)

lemma curl_registered:
  fixes st :: Session
  defines "st2 \<equiv> registeredOnResults (Some (armFrame 35))
                   (registeredOnResults (Some (armFrame 170)) st)"
  shows "repCount st2 = repCount st + 1"
    and "lastAITrigger st2 =
      (if (repCount st + 1) mod 5 = 0 \<and> repCount st + 1 \<noteq> lastAITrigger st
       then repCount st + 1 else lastAITrigger st)"
    and "inflight st2 =
      (if (repCount st + 1) mod 5 = 0 \<and> repCount st + 1 \<noteq> lastAITrigger st
       then inflight st @ [strengthContext (repCount st + 1) [35, 0, 0, 0]] else inflight st)"
    and "isLoadingAI st2 =
      (if (repCount st + 1) mod 5 = 0 \<and> repCount st + 1 \<noteq> lastAITrigger st
       then True else isLoadingAI st)"
proof -
  have f: "\<not> r_isLoadingAI firstRender"
    by (simp add: firstRender_def renderOf_def initialSession_def)
  have p: "getPoseDataString (armFrame 35) = [35, 0, 0, 0]"
    by (simp add: getPoseDataString_armFrame)
  show "repCount st2 = repCount st + 1"
    "lastAITrigger st2 =
      (if (repCount st + 1) mod 5 = 0 \<and> repCount st + 1 \<noteq> lastAITrigger st
       then repCount st + 1 else lastAITrigger st)"
    "inflight st2 =
      (if (repCount st + 1) mod 5 = 0 \<and> repCount st + 1 \<noteq> lastAITrigger st
       then inflight st @ [strengthContext (repCount st + 1) [35, 0, 0, 0]] else inflight st)"
    "isLoadingAI st2 =
      (if (repCount st + 1) mod 5 = 0 \<and> repCount st + 1 \<noteq> lastAITrigger st
       then True else isLoadingAI st)"
    unfolding st2_def
    by (simp_all add: registeredOnResults_frame armFrame_nonempty strengthFrame_def
          bicep_step_repCount bicep_step_stage bicep_step_calls bicep_step_inflight
          bicepGate_armFrame elbowAngle_armFrame f p)
qed

text \<open>
  Run by a closure of the current render, the guard of \<^verbatim>\<open>getAICoaching\<close> does keep at most
  one request in flight, and the reply empties the slot.
\<close>

lemma guard_of_current_render_keeps_one:
  assumes "length (inflight st) \<le> 1" "isLoadingAI st \<longleftrightarrow> inflight st \<noteq> []"
  shows "length (inflight (getAICoaching (renderOf st) ctx st)) \<le> 1"
    and "isLoadingAI (getAICoaching (renderOf st) ctx st)
         \<longleftrightarrow> inflight (getAICoaching (renderOf st) ctx st) \<noteq> []"
    and "isLoadingAI st \<Longrightarrow> inflight (getAICoaching (renderOf st) ctx st) = inflight st"
  using assms by (auto simp: getAICoaching_def renderOf_def Let_def)

lemma settled_keeps_one:
  assumes "length (inflight st) \<le> 1" "ctx \<in> set (inflight st)"
  shows "inflight (coachingResponse ctx res st) = []"
    and "\<not> isLoadingAI (coachingResponse ctx res st)"
proof -
  from assms have "inflight st = [ctx]"
    by (cases "inflight st") auto
  then show "inflight (coachingResponse ctx res st) = []"
    by (simp add: coachingResponse_def getAICoaching_settled_def)
  show "\<not> isLoadingAI (coachingResponse ctx res st)"
    by (simp add: coachingResponse_def getAICoaching_settled_def split: Promise.splits)
qed

text \<open>
  C2 fails in the component as it is wired. The frames are analysed by the closures of the
  first render, whose \<^verbatim>\<open>isLoadingAI\<close> is false for ever. Ten curls with no reply from the
  coaching service in between: after the fifth the request for rep 5 is in flight and the
  in-flight flag of the state is set; at the tenth the guard still reads false and a second
  request is sent while the first is unresolved.
\<close>

theorem stale_guard_second_request:
  "isLoadingAI (runFrames (\<lambda>l. registeredOnResults (Some l)) fiveCurls initialSession)
   \<and> inflight (runFrames (\<lambda>l. registeredOnResults (Some l)) fiveCurls initialSession)
       = [strengthContext 5 [35, 0, 0, 0]]
   \<and> inflight (runFrames (\<lambda>l. registeredOnResults (Some l)) (fiveCurls @ fiveCurls)
        initialSession)
       = [strengthContext 5 [35, 0, 0, 0], strengthContext 10 [35, 0, 0, 0]]"
proof -
  have i: "repCount initialSession = 0" "lastAITrigger initialSession = 0"
    "inflight initialSession = []"
    by (simp_all add: initialSession_def)
  show ?thesis
    by (simp add: runFrames_append fiveCurls_def curl_registered i strengthContext_def)
qed

section \<open>The visibility gates: effect of a frame\<close>












section \<open>Hold exercises: coaching by time\<close>

lemma handlers_timer:
  "timer (onResults r res st) = timer st"
  "timer (handleExerciseChange ex st) = 0"
  "timer (coachingResponse ctx fr st) = timer st"
proof -
  have g: "timer (getAICoaching r c s) = timer s" for c s
    by (simp add: getAICoaching_def Let_def)
  have "timer (analyzePose r l st) = timer st" for l
    by (cases "r_activeExercise r")
       (simp_all add: analyzePose_def analyzeBicepCurls_def bicepRepUpdater_def
          analyzeJumpingJacks_def analyzeWarriorPose_def analyzeHighKnees_def
          analyzeRunningForm_def Let_def g)
  then show "timer (onResults r res st) = timer st"
    by (simp add: onResults_def split: option.splits)
  show "timer (handleExerciseChange ex st) = 0"
    by (simp add: handleExerciseChange_def resetExerciseState_def)
  show "timer (coachingResponse ctx fr st) = timer st"
    by (simp add: coachingResponse_def getAICoaching_settled_def split: Promise.splits)
qed

lemma holdConsistent_mount: "\<not> interval st \<Longrightarrow> holdConsistent (timerEffect st)"
  by (auto simp: holdConsistent_def timerSynced_def holdTimerRuns_def renderConsistent_def
        renderOf_def timerEffect_def)

lemma holdConsistent_rerender:
  assumes "holdConsistent before" "interval after = interval before"
    "isPoseCorrect after \<or> timer after = timer before \<or> timer after = 0"
  shows "holdConsistent (rerender before after)"
proof -
  from assms(1) have ts: "timerSynced before"
    and rc: "isPoseCorrect before \<or> timer before = 0"
    by (simp_all add: holdConsistent_def renderConsistent_def renderOf_def)
  have "timerSynced (rerender before after)"
    using ts assms(2) by (rule timerSynced_rerender)
  moreover have "isPoseCorrect (rerender before after) \<or> timer (rerender before after) = 0"
    using rc assms(3)
    by (auto simp: rerender_def timerDeps_def timerEffect_def timerCleanup_def)
  ultimately show ?thesis
    by (simp add: holdConsistent_def renderConsistent_def renderOf_def)
qed

lemma holdConsistent_events:
  assumes "holdConsistent st"
  shows "holdConsistent (rerender st (onResults r res st))"
    and "holdConsistent (rerender st (intervalTick st))"
    and "holdConsistent (rerender st (handleExerciseChange ex st))"
    and "holdConsistent (rerender st (coachingResponse ctx fr st))"
    and "holdConsistent (rerender st (st\<lparr>aiStatus := a\<rparr>))"
proof -
  show "holdConsistent (rerender st (onResults r res st))"
    using assms by (intro holdConsistent_rerender) (simp_all add: interval_handlers handlers_timer)
  show "holdConsistent (rerender st (handleExerciseChange ex st))"
    using assms by (intro holdConsistent_rerender) (simp_all add: interval_handlers handlers_timer)
  show "holdConsistent (rerender st (coachingResponse ctx fr st))"
    using assms by (intro holdConsistent_rerender) (simp_all add: interval_handlers handlers_timer)
  show "holdConsistent (rerender st (st\<lparr>aiStatus := a\<rparr>))"
    using assms by (intro holdConsistent_rerender) simp_all
  from assms have "interval st \<longrightarrow> isPoseCorrect st"
    by (simp add: holdConsistent_def timerSynced_def holdTimerRuns_def)
  then have "isPoseCorrect (intervalTick st) \<or> timer (intervalTick st) = timer st
      \<or> timer (intervalTick st) = 0"
    by (auto simp: intervalTick_def)
  with assms show "holdConsistent (rerender st (intervalTick st))"
    by (intro holdConsistent_rerender) (simp_all add: interval_handlers)
qed

lemma running_trigger:
  "\<not> runningGate l \<Longrightarrow>
      (let st' = analyzeRunningForm r l pd st; mark = r_timer r div 30 in
         if r_timer r > 0 \<and> r_timer r mod 30 = 0 \<and> mark \<noteq> lastAITrigger st
         then (\<exists>issue. coachingCalls st' = coachingCalls st
                 @ [\<lparr> c_exercise = Running, c_reps = None, c_timer = Some (r_timer r),
                      c_detectedIssue = issue, c_poseData = pd \<rparr>])
              \<and> lastAITrigger st' = mark
         else coachingCalls st' = coachingCalls st \<and> lastAITrigger st' = lastAITrigger st)"
  by (auto simp: analyzeRunningForm_def Let_def getAICoaching_fields)

lemma yoga_trigger:
  "\<not> warriorGate l \<Longrightarrow> renderConsistent r \<Longrightarrow>
      (let st' = analyzeWarriorPose r l pd st; mark = r_timer r div 10 in
         if r_timer r > 0 \<and> r_timer r mod 10 = 0 \<and> mark \<noteq> lastAITrigger st
         then (\<exists>issue. coachingCalls st' = coachingCalls st
                 @ [\<lparr> c_exercise = Yoga, c_reps = None, c_timer = Some (r_timer r),
                      c_detectedIssue = issue, c_poseData = pd \<rparr>])
              \<and> lastAITrigger st' = mark
         else coachingCalls st' = coachingCalls st \<and> lastAITrigger st' = lastAITrigger st)"
  by (auto simp: analyzeWarriorPose_def Let_def getAICoaching_fields renderConsistent_def)

text \<open>
  C4. The timer is the one of the render whose closure analyses the frame. On a frame that
  the Running machine analyses (one that passes its gate) a coaching request is made
  exactly when the timer is positive, a multiple of 30, and the bucket (timer div 30)
  differs from the mark; the request carries the timer and the mark becomes the bucket,
  and otherwise the mark stays. The same holds of the Yoga machine with 10 for 30, for every
  render that does not show seconds on the timer next to an incorrect pose. Such a render
  does not occur: the first render is of this kind, so is the state after the first run of
  the timer effect, and so is the state after the render that follows a frame, a tick, a
  change of exercise, a coaching reply or a change of the engine's status.
\<close>

theorem hold_coaching_every_bucket:
  "(\<not> runningGate l \<longrightarrow>
      (let st' = analyzeRunningForm r l pd st; mark = r_timer r div 30 in
         if r_timer r > 0 \<and> r_timer r mod 30 = 0 \<and> mark \<noteq> lastAITrigger st
         then (\<exists>issue. coachingCalls st' = coachingCalls st
                 @ [\<lparr> c_exercise = Running, c_reps = None, c_timer = Some (r_timer r),
                      c_detectedIssue = issue, c_poseData = pd \<rparr>])
              \<and> lastAITrigger st' = mark
         else coachingCalls st' = coachingCalls st \<and> lastAITrigger st' = lastAITrigger st))
   \<and> (\<not> warriorGate l' \<and> renderConsistent r \<longrightarrow>
      (let st' = analyzeWarriorPose r l' pd st; mark = r_timer r div 10 in
         if r_timer r > 0 \<and> r_timer r mod 10 = 0 \<and> mark \<noteq> lastAITrigger st
         then (\<exists>issue. coachingCalls st' = coachingCalls st
                 @ [\<lparr> c_exercise = Yoga, c_reps = None, c_timer = Some (r_timer r),
                      c_detectedIssue = issue, c_poseData = pd \<rparr>])
              \<and> lastAITrigger st' = mark
         else coachingCalls st' = coachingCalls st \<and> lastAITrigger st' = lastAITrigger st))
   \<and> renderConsistent firstRender
   \<and> (\<not> interval st0 \<longrightarrow> holdConsistent (timerEffect st0))
   \<and> (holdConsistent st1 \<longrightarrow>
        renderConsistent (renderOf st1)
        \<and> holdConsistent (rerender st1 (onResults r1 res st1))
        \<and> holdConsistent (rerender st1 (intervalTick st1))
        \<and> holdConsistent (rerender st1 (handleExerciseChange ex st1))
        \<and> holdConsistent (rerender st1 (coachingResponse ctx fr st1))
        \<and> holdConsistent (rerender st1 (st1\<lparr>aiStatus := a\<rparr>)))"
proof -
  have first: "renderConsistent firstRender"
    by (simp add: renderConsistent_def firstRender_def renderOf_def initialSession_def)
  have inv: "holdConsistent st1 \<longrightarrow>
        renderConsistent (renderOf st1)
        \<and> holdConsistent (rerender st1 (onResults r1 res st1))
        \<and> holdConsistent (rerender st1 (intervalTick st1))
        \<and> holdConsistent (rerender st1 (handleExerciseChange ex st1))
        \<and> holdConsistent (rerender st1 (coachingResponse ctx fr st1))
        \<and> holdConsistent (rerender st1 (st1\<lparr>aiStatus := a\<rparr>))"
    by (simp add: holdConsistent_events) (simp add: holdConsistent_def)
  from first inv running_trigger [of l r pd st] yoga_trigger [of l' r pd st]
    holdConsistent_mount [of st0]
  show ?thesis by blast
qed

theorem hold_coaching_every_bucket_witness:
  "map c_timer (coachingCalls
      (analyzeRunningForm (renderOf holdAt30) (uniformFrame 1) [] holdAt30)) = [Some 30]
   \<and> lastAITrigger (analyzeRunningForm (renderOf holdAt30) (uniformFrame 1) [] holdAt30) = 1
   \<and> map c_timer (coachingCalls
      (analyzeWarriorPose (renderOf holdAt30) (uniformFrame 1) [] holdAt30)) = [Some 30]
   \<and> lastAITrigger (analyzeWarriorPose (renderOf holdAt30) (uniformFrame 1) [] holdAt30) = 3
   \<and> coachingCalls (analyzeWarriorPose (renderOf yogaHold) (uniformFrame 1) [] yogaHold) = []
   \<and> lastAITrigger (analyzeWarriorPose (renderOf yogaHold) (uniformFrame 1) [] yogaHold) = 0
   \<and> holdConsistent (timerEffect initialSession)
   \<and> holdConsistent (rerender holdAt30 (intervalTick holdAt30))
   \<and> timer (rerender holdAt30 (intervalTick holdAt30)) = 31"
proof -
  have r: "r_timer (renderOf holdAt30) = 30" "renderConsistent (renderOf holdAt30)"
    "lastAITrigger holdAt30 = 0" "coachingCalls holdAt30 = []"
    by (simp_all add: renderOf_def renderConsistent_def holdAt30_def initialSession_def)
  have y: "r_timer (renderOf yogaHold) = 3" "renderConsistent (renderOf yogaHold)"
    "lastAITrigger yogaHold = 0" "coachingCalls yogaHold = []"
    by (simp_all add: renderOf_def renderConsistent_def yogaHold_def initialSession_def)
  have g: "\<not> runningGate (uniformFrame 1)" "\<not> warriorGate (uniformFrame 1)"
    by (simp_all add: gates_uniformFrame)
  have h: "holdConsistent holdAt30" "\<not> interval initialSession"
    by (simp_all add: holdConsistent_def timerSynced_def holdTimerRuns_def renderConsistent_def
          renderOf_def holdAt30_def initialSession_def)
  note a = hold_coaching_every_bucket [of "uniformFrame 1" "renderOf holdAt30" "[]" holdAt30
      "uniformFrame 1" initialSession holdAt30]
  note b = hold_coaching_every_bucket [of "uniformFrame 1" "renderOf yogaHold" "[]" yogaHold
      "uniformFrame 1" initialSession holdAt30]
  from a [THEN conjunct1] g(1)
  have 1: "map c_timer (coachingCalls
        (analyzeRunningForm (renderOf holdAt30) (uniformFrame 1) [] holdAt30)) = [Some 30]
     \<and> lastAITrigger (analyzeRunningForm (renderOf holdAt30) (uniformFrame 1) [] holdAt30) = 1"
    by (auto simp: r Let_def)
  from a [THEN conjunct2, THEN conjunct1] g(2) r(2)
  have 2: "map c_timer (coachingCalls
        (analyzeWarriorPose (renderOf holdAt30) (uniformFrame 1) [] holdAt30)) = [Some 30]
     \<and> lastAITrigger (analyzeWarriorPose (renderOf holdAt30) (uniformFrame 1) [] holdAt30) = 3"
    by (auto simp: r Let_def)
  from b [THEN conjunct2, THEN conjunct1] g(2) y(2)
  have 3: "coachingCalls (analyzeWarriorPose (renderOf yogaHold) (uniformFrame 1) [] yogaHold) = []
     \<and> lastAITrigger (analyzeWarriorPose (renderOf yogaHold) (uniformFrame 1) [] yogaHold) = 0"
    by (auto simp: y Let_def)
  from a [THEN conjunct2, THEN conjunct2, THEN conjunct2, THEN conjunct1] h(2)
  have 4: "holdConsistent (timerEffect initialSession)" by (rule mp)
  from a [THEN conjunct2, THEN conjunct2, THEN conjunct2, THEN conjunct2] h(1)
  have 5: "holdConsistent (rerender holdAt30 (intervalTick holdAt30))" by blast
  have 6: "timer (rerender holdAt30 (intervalTick holdAt30)) = 31"
    by (simp add: rerender_def timerDeps_def intervalTick_def holdAt30_def initialSession_def)
  from 1 2 3 4 5 6 show ?thesis by simp
qed

end
